theory Spec2Isabelle
  imports Main "HOL-Library.AList"
begin

section \<open>Strings\<close>

text \<open>
  The pipeline uses two string operations of the language: \<^verbatim>\<open>String.prototype.includes\<close>
  (the content-type gate of \<^verbatim>\<open>parseBody\<close>) and \<^verbatim>\<open>String.prototype.toLowerCase\<close>
  (the header adapter). Header names and values are ASCII, so a string is a list of
  characters and lower-casing touches the letters A to Z only.
\<close>

fun startsWith :: "string \<Rightarrow> string \<Rightarrow> bool" where
  "startsWith s [] = True"
| "startsWith [] (c # cs) = False"
| "startsWith (x # xs) (c # cs) = (x = c \<and> startsWith xs cs)"

fun str_includes :: "string \<Rightarrow> string \<Rightarrow> bool" where
  "str_includes [] sub = (sub = [])"
| "str_includes (x # xs) sub = (startsWith (x # xs) sub \<or> str_includes xs sub)"

definition lowerChar :: "char \<Rightarrow> char" where
  "lowerChar c =
     (case map_of (zip ''ABCDEFGHIJKLMNOPQRSTUVWXYZ'' ''abcdefghijklmnopqrstuvwxyz'') c of
        Some l \<Rightarrow> l
      | None \<Rightarrow> c)"

definition toLowerCase :: "string \<Rightarrow> string" where
  "toLowerCase s = map lowerChar s"

section \<open>JSON values and errors\<close>

text \<open>
  \<^verbatim>\<open>request.json()\<close> yields a JSON value, and the 400 response carries one. Numbers are
  kept as integers: no function of the pipeline looks inside a number.
\<close>

datatype json =
    JNull
  | JBool bool
  | JNumber int
  | JString string
  | JArray "json list"
  | JObject "(string \<times> json) list"

text \<open>An entry of \<^verbatim>\<open>ZodError.issues\<close>: an object with a code, a path and a message.\<close>

type_synonym ZodIssue = json

text \<open>
  What the code throws and catches. \<^verbatim>\<open>ValidationError(message, zodError?)\<close> is the
  library's own class; \<^verbatim>\<open>ZodError\<close> is the schema library's, given by its issues;
  \<^verbatim>\<open>Error\<close> and \<^verbatim>\<open>TypeError\<close> are the language's. \<open>Unmodelled\<close> is not an error of
  the program: it marks the one run the object model below does not follow (see
  \<open>set_property\<close>).
\<close>

datatype error =
    ValidationError string "ZodIssue list option"
  | ZodError "ZodIssue list"
  | Error string
  | TypeError string
  | Unmodelled string

section \<open>Schema Coercion Adapters\<close>

text \<open>
  The three adapters fill an object literal \<^verbatim>\<open>{}\<close>. Such an object has no property of
  its own but inherits the members of \<^verbatim>\<open>Object.prototype\<close>, which a read
  \<^verbatim>\<open>result[key]\<close> finds: eleven functions, and the accessor \<^verbatim>\<open>__proto__\<close> whose value
  is the prototype itself. The own properties are kept as an association list in the
  order of their creation.
\<close>

definition object_prototype_names :: "string list" where
  "object_prototype_names =
     [''constructor'', ''__defineGetter__'', ''__defineSetter__'', ''hasOwnProperty'',
      ''__lookupGetter__'', ''__lookupSetter__'', ''isPrototypeOf'',
      ''propertyIsEnumerable'', ''toString'', ''valueOf'', ''__proto__'',
      ''toLocaleString'']"

type_synonym HttpRequestParams = "(string \<times> string) list"
type_synonym URLSearchParams = "(string \<times> string) list"
type_synonym UndiciHeaders = "(string \<times> string) list"
type_synonym StringRecord = "(string \<times> string) list"

text \<open>
  \<^verbatim>\<open>result[key] = value\<close> for a string \<^verbatim>\<open>value\<close>: a new own property, or the old one
  overwritten. For the key \<^verbatim>\<open>__proto__\<close> the assignment runs the inherited setter,
  which ignores a value that is not an object, so nothing is stored.
\<close>

definition assign_string :: "StringRecord \<Rightarrow> string \<Rightarrow> string \<Rightarrow> StringRecord" where
  "assign_string result key v =
     (if key = ''__proto__'' then result else AList.update key v result)"

text \<open>
  \<^verbatim>\<open>convertParamsToObject\<close>: the \<^verbatim>\<open>for ... in\<close> loop with its \<^verbatim>\<open>hasOwnProperty\<close> test
  visits the own enumerable properties of \<^verbatim>\<open>params\<close>, which the list holds.
\<close>

definition convertParamsToObject :: "HttpRequestParams \<Rightarrow> StringRecord" where
  "convertParamsToObject params =
     fold (\<lambda>(key, v) result. assign_string result key v) params []"

text \<open>
  \<^verbatim>\<open>convertHeadersToObject\<close>: \<^verbatim>\<open>headers.forEach((value, key) => ...)\<close> over the entries
  of the Headers object.
\<close>

definition convertHeadersToObject :: "UndiciHeaders \<Rightarrow> StringRecord" where
  "convertHeadersToObject headers =
     fold (\<lambda>(key, v) result. assign_string result (toLowerCase key) v) headers []"

text \<open>
  \<^verbatim>\<open>convertQueryToObject\<close>. A property of the result holds a string or an array; an
  array holds strings and, when the first read of a key found an inherited member of
  \<^verbatim>\<open>Object.prototype\<close>, that member (\<open>QInherited\<close>, by its name).
\<close>

datatype qvalue =
    QString string
  | QInherited string
  | QArray "qvalue list"

text \<open>
  The result is the object with its own properties. For the key \<^verbatim>\<open>__proto__\<close> the read
  finds the prototype (not an array), and the assignment of the two-element array runs
  the inherited setter, which makes that array the prototype of \<^verbatim>\<open>result\<close>; every later
  read then goes through the array. The model stops there and hands over what determines
  the object: the own properties so far, the value, and the entries not yet visited.
\<close>

datatype query_object =
    QueryObject "(string \<times> qvalue) list"
  | Reparented "(string \<times> qvalue) list" string "(string \<times> string) list"

definition read_result :: "(string \<times> qvalue) list \<Rightarrow> string \<Rightarrow> qvalue option" where
  "read_result result key =
     (case map_of result key of
        Some v \<Rightarrow> Some v
      | None \<Rightarrow> if key \<in> set object_prototype_names then Some (QInherited key) else None)"

fun query_forEach :: "URLSearchParams \<Rightarrow> (string \<times> qvalue) list \<Rightarrow> query_object" where
  "query_forEach [] result = QueryObject result"
| "query_forEach ((key, v) # rest) result =
     (case read_result result key of
        None \<Rightarrow> query_forEach rest (AList.update key (QString v) result)
      | Some (QArray existing) \<Rightarrow>
          query_forEach rest (AList.update key (QArray (existing @ [QString v])) result)
      | Some existing \<Rightarrow>
          if key = ''__proto__'' then Reparented result v rest
          else query_forEach rest (AList.update key (QArray [existing, QString v]) result))"

definition convertQueryToObject :: "URLSearchParams \<Rightarrow> query_object" where
  "convertQueryToObject query = query_forEach query []"

text \<open>
  The value that the specification gives a key (section 4.1): nothing for a key that
  does not appear, the string for a key that appears once, and the sequence of all its
  values in order for a key that appears several times. \<open>getAll\<close> is
  \<^verbatim>\<open>URLSearchParams.getAll\<close>, the values of a key in the order of appearance.
\<close>

definition getAll :: "URLSearchParams \<Rightarrow> string \<Rightarrow> string list" where
  "getAll query key = map snd (filter (\<lambda>(k, v). k = key) query)"

fun spec_query_value :: "string list \<Rightarrow> qvalue option" where
  "spec_query_value [] = None"
| "spec_query_value [v] = Some (QString v)"
| "spec_query_value vs = Some (QArray (map QString vs))"

section \<open>Effects\<close>

text \<open>
  The pipeline calls out in three places: a schema's \<^verbatim>\<open>parse\<close>, the request's
  \<^verbatim>\<open>json()\<close> (which consumes the body stream) and the user's handler. A run of a
  function is its outcome, a thrown error on the left or the returned value on the
  right, with the calls it made in order. An \<^verbatim>\<open>async\<close> function that rejects is a
  function that throws: every caller awaits.
\<close>

datatype part = PartParams | PartQuery | PartBody | PartHeaders

datatype event = SchemaParse part | ReadJson | CallHandler

type_synonym 'a run = "(error + 'a) \<times> event list"

definition resolve :: "'a \<Rightarrow> 'a run" where
  "resolve x = (Inr x, [])"

definition reject :: "error \<Rightarrow> 'a run" where
  "reject e = (Inl e, [])"

text \<open>Sequencing: a throw of the first statement skips the rest.\<close>

definition and_then :: "'a run \<Rightarrow> ('a \<Rightarrow> 'b run) \<Rightarrow> 'b run" where
  "and_then m f =
     (case m of
        (Inl e, t) \<Rightarrow> (Inl e, t)
      | (Inr x, t) \<Rightarrow> (case f x of (r, t') \<Rightarrow> (r, t @ t')))"

definition succeeded :: "'a run \<Rightarrow> bool" where
  "succeeded m = (case fst m of Inl e \<Rightarrow> False | Inr x \<Rightarrow> True)"

section \<open>Typed Parsers\<close>

text \<open>
  A Zod schema is used through \<^verbatim>\<open>schema.parse(value)\<close> only: it returns the typed value
  or throws, a \<^verbatim>\<open>ZodError\<close> when it rejects the value.
\<close>

type_synonym ('i, 'o) schema = "'i \<Rightarrow> error + 'o"

text \<open>
  The \<^verbatim>\<open>try { return schema.parse(x) } catch (error) { ... }\<close> block that the four parsers
  share: a \<^verbatim>\<open>ZodError\<close> is wrapped in a \<^verbatim>\<open>ValidationError\<close> with the parser's message,
  anything else is thrown again.
\<close>

definition parse_with :: "part \<Rightarrow> string \<Rightarrow> ('i, 'o) schema \<Rightarrow> 'i \<Rightarrow> 'o run" where
  "parse_with p msg schema x =
     (case schema x of
        Inr v \<Rightarrow> (Inr v, [SchemaParse p])
      | Inl (ZodError issues) \<Rightarrow> (Inl (ValidationError msg (Some issues)), [SchemaParse p])
      | Inl e \<Rightarrow> (Inl e, [SchemaParse p]))"

definition parseRouteParams :: "HttpRequestParams \<Rightarrow> (StringRecord, 'o) schema \<Rightarrow> 'o run" where
  "parseRouteParams params schema =
     parse_with PartParams ''Route parameters validation failed'' schema
       (convertParamsToObject params)"

definition parseQueryParams :: "URLSearchParams \<Rightarrow> (query_object, 'o) schema \<Rightarrow> 'o run" where
  "parseQueryParams query schema =
     parse_with PartQuery ''Query parameters validation failed'' schema
       (convertQueryToObject query)"

definition parseHeaders :: "UndiciHeaders \<Rightarrow> (StringRecord, 'o) schema \<Rightarrow> 'o run" where
  "parseHeaders headers schema =
     parse_with PartHeaders ''Request headers validation failed'' schema
       (convertHeadersToObject headers)"

section \<open>Objects\<close>

text \<open>
  \<^verbatim>\<open>createSafeRequest\<close> works on the request as an object: \<^verbatim>\<open>Object.create\<close>,
  \<^verbatim>\<open>Object.defineProperty\<close> and \<^verbatim>\<open>Object.assign\<close> see own properties, their
  \<^verbatim>\<open>enumerable\<close> flag, accessors and the prototype chain. A property is a data
  property or an accessor with a getter and no setter (what the getter returns or
  throws); \<open>proto = None\<close> is the end of the chain at \<^verbatim>\<open>Object.prototype\<close>. Objects
  are values: nothing here changes an object that another one refers to.
\<close>

datatype 'v slot = Data 'v | Getter "error + 'v"

datatype 'v descriptor = Descriptor (enumerable: bool) (slot: "'v slot")

datatype 'v jsobject =
  JSObject (own: "(string \<times> 'v descriptor) list") (proto: "'v jsobject option")

text \<open>
  The value of a read \<^verbatim>\<open>obj[key]\<close>: \<^verbatim>\<open>undefined\<close>, a value, or the member of
  \<^verbatim>\<open>Object.prototype\<close> of that name (for \<^verbatim>\<open>__proto__\<close>: what its getter computes).
\<close>

datatype 'v reading = Undefined_value | Value 'v | Builtin string

fun find_property :: "'v jsobject \<Rightarrow> string \<Rightarrow> 'v descriptor option" where
  "find_property (JSObject props None) key = map_of props key"
| "find_property (JSObject props (Some p)) key =
     (case map_of props key of
        Some pr \<Rightarrow> Some pr
      | None \<Rightarrow> find_property p key)"

definition get_property :: "'v jsobject \<Rightarrow> string \<Rightarrow> error + 'v reading" where
  "get_property obj key =
     (case find_property obj key of
        Some (Descriptor en (Data v)) \<Rightarrow> Inr (Value v)
      | Some (Descriptor en (Getter (Inr v))) \<Rightarrow> Inr (Value v)
      | Some (Descriptor en (Getter (Inl e))) \<Rightarrow> Inl e
      | None \<Rightarrow>
          if key \<in> set object_prototype_names then Inr (Builtin key)
          else Inr Undefined_value)"

definition object_create :: "'v jsobject \<Rightarrow> 'v jsobject" where
  "object_create p = JSObject [] (Some p)"

text \<open>
  \<^verbatim>\<open>Set(target, key, value, true)\<close>, the assignment \<^verbatim>\<open>Object.assign\<close> makes: an own
  data property is overwritten; an accessor without a setter, own or inherited, makes
  it throw a \<^verbatim>\<open>TypeError\<close>; otherwise \<^verbatim>\<open>target\<close> gets a new enumerable data property
  (the data properties of \<^verbatim>\<open>Object.prototype\<close> are writable, so they do not stop it).
  The key \<^verbatim>\<open>__proto__\<close> would run the setter inherited from \<^verbatim>\<open>Object.prototype\<close>,
  which replaces the prototype of \<^verbatim>\<open>target\<close> when the value is an object: the model
  does not follow that run and says so.
\<close>

definition set_property :: "'v jsobject \<Rightarrow> string \<Rightarrow> 'v \<Rightarrow> error + 'v jsobject" where
  "set_property target key v =
     (if key = ''__proto__'' then Inl (Unmodelled ''Object.assign: __proto__'')
      else
        (case find_property target key of
           Some (Descriptor en (Getter g)) \<Rightarrow>
             Inl (TypeError (''Cannot set property '' @ key @ '' of #<Object> which has only a getter''))
         | Some (Descriptor en (Data old)) \<Rightarrow>
             (case map_of (own target) key of
                Some pr \<Rightarrow>
                  Inr (JSObject (AList.update key (Descriptor en (Data v)) (own target))
                         (proto target))
              | None \<Rightarrow>
                  Inr (JSObject (AList.update key (Descriptor True (Data v)) (own target))
                         (proto target)))
         | None \<Rightarrow>
             Inr (JSObject (AList.update key (Descriptor True (Data v)) (own target))
                    (proto target))))"

text \<open>
  \<^verbatim>\<open>Object.assign(target, source)\<close>: for each own enumerable property of the source, in
  order, read it from the source (a getter runs, and may throw) and assign it to the
  target.
\<close>

fun assign_properties ::
  "'v jsobject \<Rightarrow> (string \<times> 'v descriptor) list \<Rightarrow> error + 'v jsobject" where
  "assign_properties target [] = Inr target"
| "assign_properties target ((key, Descriptor en sl) # rest) =
     (if \<not> en then assign_properties target rest
      else
        (case (case sl of Data v \<Rightarrow> Inr v | Getter g \<Rightarrow> g) of
           Inl e \<Rightarrow> Inl e
         | Inr v \<Rightarrow>
             (case set_property target key v of
                Inl e \<Rightarrow> Inl e
              | Inr target' \<Rightarrow> assign_properties target' rest)))"

definition object_assign :: "'v jsobject \<Rightarrow> 'v jsobject \<Rightarrow> error + 'v jsobject" where
  "object_assign target source = assign_properties target (own source)"

section \<open>Requests\<close>

text \<open>
  The request of the host framework, as this code uses it: \<open>req_params\<close>,
  \<open>req_query\<close> and \<open>req_headers\<close> are what the reads \<^verbatim>\<open>request.params\<close>,
  \<^verbatim>\<open>request.query\<close> and \<^verbatim>\<open>request.headers\<close> give; \<open>req_json\<close> is how
  \<^verbatim>\<open>request.json()\<close> settles on the unread body (it rejects when the text is not JSON);
  \<open>req_object\<close> is the request as an object, the table of properties that
  \<^verbatim>\<open>Object.assign\<close> and the handler's reads see. A Headers object is given by the
  entries its \<^verbatim>\<open>forEach\<close> visits, one for each name.
\<close>

record 'v HttpRequest =
  req_params :: HttpRequestParams
  req_query :: URLSearchParams
  req_headers :: UndiciHeaders
  req_json :: "error + json"
  req_object :: "'v jsobject"

text \<open>\<^verbatim>\<open>headers.get(name)\<close>: the name is matched without regard to case; no entry gives \<^verbatim>\<open>null\<close>.\<close>

definition headers_get :: "UndiciHeaders \<Rightarrow> string \<Rightarrow> string option" where
  "headers_get headers name =
     map_of (map (\<lambda>(key, v). (toLowerCase key, v)) headers) (toLowerCase name)"

text \<open>
  \<^verbatim>\<open>parseBody\<close>. \<^verbatim>\<open>!contentType?.includes('application/json')\<close> holds for a missing
  header (\<^verbatim>\<open>null\<close>) and for a value without that substring. Any failure of
  \<^verbatim>\<open>request.json()\<close> becomes the error \<^verbatim>\<open>Invalid JSON body\<close>.
\<close>

definition parseBody :: "'v HttpRequest \<Rightarrow> (json, 'o) schema \<Rightarrow> 'o run" where
  "parseBody request schema =
     (case headers_get (req_headers request) ''content-type'' of
        None \<Rightarrow> reject (ValidationError ''Content-Type must be application/json'' None)
      | Some contentType \<Rightarrow>
          if \<not> str_includes contentType ''application/json''
          then reject (ValidationError ''Content-Type must be application/json'' None)
          else
            (case req_json request of
               Inl e \<Rightarrow> (Inl (ValidationError ''Invalid JSON body'' None), [ReadJson])
             | Inr bodyData \<Rightarrow>
                 and_then (Inr bodyData, [ReadJson])
                   (parse_with PartBody ''Request body validation failed'' schema)))"

section \<open>Request Orchestrator\<close>

text \<open>\<^verbatim>\<open>RequestSchemas\<close>: four optional schemas. A schema is an object, so the tests
  \<^verbatim>\<open>schemas.params ? ... : ...\<close> and \<^verbatim>\<open>schemas.body !== undefined\<close> ask whether it is there.\<close>

record 'o RequestSchemas =
  schema_params :: "(StringRecord, 'o) schema option"
  schema_query :: "(query_object, 'o) schema option"
  schema_body :: "(json, 'o) schema option"
  schema_headers :: "(StringRecord, 'o) schema option"

text \<open>
  A field of \<^verbatim>\<open>ParsedRequest\<close>: the output of the schema, the framework's value handed
  over as it is, or \<^verbatim>\<open>undefined\<close>.
\<close>

datatype ('t, 'raw) parsed = Validated 't | Original 'raw | Undefined

record 'o ParsedRequest =
  parsed_params :: "('o, HttpRequestParams) parsed"
  parsed_query :: "('o, URLSearchParams) parsed"
  parsed_body :: "('o, json) parsed"
  parsed_headers :: "('o, UndiciHeaders) parsed"

text \<open>The four constants of \<^verbatim>\<open>parseRequest\<close>, in the order of the source.\<close>

definition parsedParams ::
  "'v HttpRequest \<Rightarrow> 'o RequestSchemas \<Rightarrow> ('o, HttpRequestParams) parsed run" where
  "parsedParams request schemas =
     (case schema_params schemas of
        Some schema \<Rightarrow> and_then (parseRouteParams (req_params request) schema) (\<lambda>v. resolve (Validated v))
      | None \<Rightarrow> resolve (Original (req_params request)))"

definition parsedQuery ::
  "'v HttpRequest \<Rightarrow> 'o RequestSchemas \<Rightarrow> ('o, URLSearchParams) parsed run" where
  "parsedQuery request schemas =
     (case schema_query schemas of
        Some schema \<Rightarrow> and_then (parseQueryParams (req_query request) schema) (\<lambda>v. resolve (Validated v))
      | None \<Rightarrow> resolve (Original (req_query request)))"

definition parsedBody ::
  "'v HttpRequest \<Rightarrow> 'o RequestSchemas \<Rightarrow> ('o, json) parsed run" where
  "parsedBody request schemas =
     (case schema_body schemas of
        Some schema \<Rightarrow> and_then (parseBody request schema) (\<lambda>v. resolve (Validated v))
      | None \<Rightarrow> resolve Undefined)"

definition parsedHeaders ::
  "'v HttpRequest \<Rightarrow> 'o RequestSchemas \<Rightarrow> ('o, UndiciHeaders) parsed run" where
  "parsedHeaders request schemas =
     (case schema_headers schemas of
        Some schema \<Rightarrow> and_then (parseHeaders (req_headers request) schema) (\<lambda>v. resolve (Validated v))
      | None \<Rightarrow> resolve (Original (req_headers request)))"

definition parseRequest :: "'v HttpRequest \<Rightarrow> 'o RequestSchemas \<Rightarrow> 'o ParsedRequest run" where
  "parseRequest request schemas =
     and_then (parsedParams request schemas) (\<lambda>p.
     and_then (parsedQuery request schemas) (\<lambda>q.
     and_then (parsedBody request schemas) (\<lambda>b.
     and_then (parsedHeaders request schemas) (\<lambda>h.
     resolve \<lparr>parsed_params = p, parsed_query = q, parsed_body = b, parsed_headers = h\<rparr>))))"

section \<open>Safe-Request Guard\<close>

definition dangerousMethods :: "string list" where
  "dangerousMethods = [''json'', ''text'', ''formData'', ''arrayBuffer'', ''blob'']"

definition blocked_message :: "string \<Rightarrow> string" where
  "blocked_message method =
     ''Cannot call request.'' @ method @
     ''() - body has already been parsed by the typed handler wrapper. '' @
     ''The parsed body is available in the 'body' parameter of your handler. '' @
     ''If you need the raw request, use the regular 'handler' instead of 'typedHandler'.''"

text \<open>
  \<^verbatim>\<open>SAFE_REQUEST_PROTOTYPE\<close>: a fresh object below \<^verbatim>\<open>Object.prototype\<close> with, for each
  dangerous method, a property that is not enumerable and whose getter throws.
\<close>

definition SAFE_REQUEST_PROTOTYPE :: "'v jsobject" where
  "SAFE_REQUEST_PROTOTYPE =
     JSObject
       (map (\<lambda>method. (method, Descriptor False (Getter (Inl (Error (blocked_message method))))))
          dangerousMethods)
       None"

definition createSafeRequest :: "'v jsobject \<Rightarrow> bool \<Rightarrow> error + 'v jsobject" where
  "createSafeRequest request bodyWasParsed =
     (if \<not> bodyWasParsed then Inr request
      else object_assign (object_create SAFE_REQUEST_PROTOTYPE) request)"

text \<open>
  The shape of a guarded view: its prototype is \<^verbatim>\<open>SAFE_REQUEST_PROTOTYPE\<close> and none of
  the dangerous methods is a property of its own, so that a read of one reaches the
  throwing getter.
\<close>

definition guarded :: "'v jsobject \<Rightarrow> bool" where
  "guarded obj \<longleftrightarrow>
     proto obj = Some SAFE_REQUEST_PROTOTYPE \<and>
     (\<forall>method \<in> set dangerousMethods. map_of (own obj) method = None)"

section \<open>Typed-Handler Dispatcher\<close>

record ('o, 'v, 'c) TypedHandlerArgs =
  arg_params :: "('o, HttpRequestParams) parsed"
  arg_query :: "('o, URLSearchParams) parsed"
  arg_body :: "('o, json) parsed"
  arg_headers :: "('o, UndiciHeaders) parsed"
  arg_request :: "'v jsobject"
  arg_context :: 'c

record HttpResponseInit =
  status :: "nat option"
  jsonBody :: "json option"

type_synonym ('o, 'v, 'c) TypedHandler =
  "('o, 'v, 'c) TypedHandlerArgs \<Rightarrow> error + HttpResponseInit"

definition invoke ::
  "('o, 'v, 'c) TypedHandler \<Rightarrow> ('o, 'v, 'c) TypedHandlerArgs \<Rightarrow> HttpResponseInit run" where
  "invoke handler args = (handler args, [CallHandler])"

text \<open>\<^verbatim>\<open>error instanceof ValidationError\<close>.\<close>

fun isValidationError :: "error \<Rightarrow> bool" where
  "isValidationError (ValidationError msg zodError) = True"
| "isValidationError e = False"

text \<open>The \<^verbatim>\<open>catch\<close> block: a \<^verbatim>\<open>ValidationError\<close> becomes the response
  \<^verbatim>\<open>{ status: 400, jsonBody: { error: error.message, details: ... } }\<close> with
  \<^verbatim>\<open>error.zodError?.issues || []\<close> as details; any other error is thrown again.\<close>

definition catch_block :: "HttpResponseInit run \<Rightarrow> HttpResponseInit run" where
  "catch_block m =
     (case m of
        (Inl (ValidationError msg zodError), t) \<Rightarrow>
          (Inr \<lparr>status = Some 400,
                jsonBody = Some (JObject
                  [(''error'', JString msg),
                   (''details'', JArray (case zodError of Some issues \<Rightarrow> issues | None \<Rightarrow> []))])\<rparr>,
           t)
      | (Inl e, t) \<Rightarrow> (Inl e, t)
      | (Inr response, t) \<Rightarrow> (Inr response, t))"

definition wrapTypedHandler ::
  "'o RequestSchemas \<Rightarrow> ('o, 'v, 'c) TypedHandler \<Rightarrow> 'v HttpRequest \<Rightarrow> 'c \<Rightarrow>
     HttpResponseInit run" where
  "wrapTypedHandler schemas handler request ctx =
     catch_block
       (and_then (parseRequest request schemas) (\<lambda>parsed.
        and_then (createSafeRequest (req_object request) (schema_body schemas \<noteq> None), [])
          (\<lambda>safeRequest.
        invoke handler
          \<lparr>arg_params = parsed_params parsed, arg_query = parsed_query parsed,
           arg_body = parsed_body parsed, arg_headers = parsed_headers parsed,
           arg_request = safeRequest, arg_context = ctx\<rparr>)))"

text \<open>
  The argument record that the \<^verbatim>\<open>try\<close> block of \<^verbatim>\<open>wrapTypedHandler\<close> builds before it
  calls the handler, on its own: what the handler is given.
\<close>

definition handler_arguments ::
  "'o RequestSchemas \<Rightarrow> 'v HttpRequest \<Rightarrow> 'c \<Rightarrow> ('o, 'v, 'c) TypedHandlerArgs run" where
  "handler_arguments schemas request ctx =
     and_then (parseRequest request schemas) (\<lambda>parsed.
     and_then (createSafeRequest (req_object request) (schema_body schemas \<noteq> None), [])
       (\<lambda>safeRequest.
     resolve
       \<lparr>arg_params = parsed_params parsed, arg_query = parsed_query parsed,
        arg_body = parsed_body parsed, arg_headers = parsed_headers parsed,
        arg_request = safeRequest, arg_context = ctx\<rparr>))"

section \<open>Example inputs\<close>

text \<open>
  Values of the properties of a request. The request object that the host framework
  builds is an instance of its \<^verbatim>\<open>HttpRequest\<close> class: \<^verbatim>\<open>query\<close> and \<^verbatim>\<open>params\<close> are
  fields that the constructor assigns, so own enumerable data properties; \<^verbatim>\<open>url\<close>,
  \<^verbatim>\<open>method\<close>, \<^verbatim>\<open>headers\<close> and \<^verbatim>\<open>bodyUsed\<close> are getters of the class, and the body
  readers are its methods, so properties of the prototype that are not enumerable.
\<close>

datatype pvalue =
    PString string
  | PBool bool
  | PParams HttpRequestParams
  | PQuery URLSearchParams
  | PHeaders UndiciHeaders
  | PFunction string

definition HttpRequest_prototype :: "UndiciHeaders \<Rightarrow> pvalue jsobject" where
  "HttpRequest_prototype headers =
     JSObject
       [(''url'', Descriptor False (Getter (Inr (PString ''http://localhost:7071/api/todos/42'')))),
        (''method'', Descriptor False (Getter (Inr (PString ''POST'')))),
        (''headers'', Descriptor False (Getter (Inr (PHeaders headers)))),
        (''bodyUsed'', Descriptor False (Getter (Inr (PBool True)))),
        (''arrayBuffer'', Descriptor False (Data (PFunction ''arrayBuffer''))),
        (''blob'', Descriptor False (Data (PFunction ''blob''))),
        (''formData'', Descriptor False (Data (PFunction ''formData''))),
        (''json'', Descriptor False (Data (PFunction ''json''))),
        (''text'', Descriptor False (Data (PFunction ''text'')))]
       None"

definition framework_request ::
  "HttpRequestParams \<Rightarrow> URLSearchParams \<Rightarrow> UndiciHeaders \<Rightarrow> error + json \<Rightarrow>
     pvalue HttpRequest" where
  "framework_request params query headers body =
     \<lparr>req_params = params, req_query = query, req_headers = headers, req_json = body,
      req_object =
        JSObject
          [(''query'', Descriptor True (Data (PQuery query))),
           (''params'', Descriptor True (Data (PParams params)))]
          (Some (HttpRequest_prototype headers))\<rparr>"

definition todo_request :: "pvalue HttpRequest" where
  "todo_request =
     framework_request [(''id'', ''42'')] [(''tag'', ''a''), (''tag'', ''b'')]
       [(''content-type'', ''application/json; charset=utf-8'')]
       (Inr (JObject [(''title'', JString ''x'')]))"

definition text_request :: "pvalue HttpRequest" where
  "text_request =
     framework_request [] [] [(''content-type'', ''text/plain'')] (Inr (JString ''hello''))"

definition no_schemas :: "json RequestSchemas" where
  "no_schemas =
     \<lparr>schema_params = None, schema_query = None, schema_body = None, schema_headers = None\<rparr>"

text \<open>Two schemas: one accepts every value, one rejects every value with one issue.\<close>

definition required_issue :: ZodIssue where
  "required_issue =
     JObject [(''code'', JString ''invalid_type''), (''path'', JArray [JString ''id'']),
       (''message'', JString ''Required'')]"

definition accept_all :: "('i, json) schema" where
  "accept_all x = Inr JNull"

definition reject_all :: "('i, json) schema" where
  "reject_all x = Inl (ZodError [required_issue])"

definition params_rejecting :: "json RequestSchemas" where
  "params_rejecting =
     \<lparr>schema_params = Some reject_all, schema_query = Some reject_all,
      schema_body = Some reject_all, schema_headers = None\<rparr>"

definition query_rejecting :: "json RequestSchemas" where
  "query_rejecting =
     \<lparr>schema_params = Some accept_all, schema_query = Some reject_all,
      schema_body = Some reject_all, schema_headers = None\<rparr>"



definition body_accepting :: "json RequestSchemas" where
  "body_accepting =
     \<lparr>schema_params = None, schema_query = None,
      schema_body = Some accept_all, schema_headers = None\<rparr>"

definition bare_request :: "pvalue HttpRequest" where
  "bare_request = framework_request [] [] [] (Inr (JObject []))"

text \<open>
  A request whose media type is \<^verbatim>\<open>text/plain\<close>, with a parameter that contains
  \<^verbatim>\<open>application/json\<close>, and one that names the JSON media type in capitals; the body
  of the second is not JSON.
\<close>

definition annotated_text_request :: "pvalue HttpRequest" where
  "annotated_text_request =
     framework_request [] [] [(''content-type'', ''text/plain; note=application/json'')]
       (Inr (JString ''hello''))"

definition capitalised_json_request :: "pvalue HttpRequest" where
  "capitalised_json_request =
     framework_request [] [] [(''content-type'', ''Application/JSON'')]
       (Inl (Error ''Unexpected token h in JSON at position 0''))"

definition broken_json_request :: "pvalue HttpRequest" where
  "broken_json_request =
     framework_request [] [] [(''content-type'', ''application/json'')]
       (Inl (Error ''Unexpected token h in JSON at position 0''))"

text \<open>What \<^verbatim>\<open>createSafeRequest\<close> makes of \<open>todo_request\<close>.\<close>

definition todo_safe_request :: "pvalue jsobject" where
  "todo_safe_request =
     JSObject
       [(''query'', Descriptor True (Data (PQuery [(''tag'', ''a''), (''tag'', ''b'')]))),
        (''params'', Descriptor True (Data (PParams [(''id'', ''42'')])))]
       (Some SAFE_REQUEST_PROTOTYPE)"

text \<open>Two handlers: one throws an \<^verbatim>\<open>Error\<close>, one throws a \<^verbatim>\<open>ValidationError\<close>.\<close>

definition failing_handler :: "(json, pvalue, unit) TypedHandler" where
  "failing_handler args = Inl (Error ''database unreachable'')"

definition refusing_handler :: "(json, pvalue, unit) TypedHandler" where
  "refusing_handler args = Inl (ValidationError ''Todo is locked'' None)"

section \<open>Substrings\<close>

lemma startsWith_iff: "startsWith s sub \<longleftrightarrow> (\<exists>post. s = sub @ post)"
  by (induction s sub rule: startsWith.induct) auto

lemma str_includes_iff: "str_includes s sub \<longleftrightarrow> (\<exists>pre post. s = pre @ sub @ post)"
proof (induction s)
  case Nil
  then show ?case by auto
next
  case (Cons x xs)
  show ?case
  proof
    assume "str_includes (x # xs) sub"
    then consider "startsWith (x # xs) sub" | "str_includes xs sub" by auto
    then show "\<exists>pre post. x # xs = pre @ sub @ post"
    proof cases
      case 1
      then obtain post where "x # xs = sub @ post" by (auto simp: startsWith_iff)
      then have "x # xs = [] @ sub @ post" by simp
      then show ?thesis by blast
    next
      case 2
      then obtain pre post where "xs = pre @ sub @ post" using Cons.IH by blast
      then have "x # xs = (x # pre) @ sub @ post" by simp
      then show ?thesis by blast
    qed
  next
    assume "\<exists>pre post. x # xs = pre @ sub @ post"
    then obtain pre post where eq: "x # xs = pre @ sub @ post" by blast
    show "str_includes (x # xs) sub"
    proof (cases pre)
      case Nil
      with eq have "startsWith (x # xs) sub" by (auto simp: startsWith_iff)
      then show ?thesis by simp
    next
      case (Cons p ps)
      with eq have "xs = ps @ sub @ post" by simp
      then have "str_includes xs sub" using Cons.IH by blast
      then show ?thesis by simp
    qed
  qed
qed

section \<open>Runs\<close>

lemma fst_and_then_Inr:
  "fst (and_then m f) = Inr y \<longleftrightarrow> (\<exists>x. fst m = Inr x \<and> fst (f x) = Inr y)"
  by (cases m; cases "fst m") (auto simp: and_then_def split: prod.splits)

lemma fst_and_then_Inl:
  "fst (and_then m f) = Inl e \<longleftrightarrow>
     fst m = Inl e \<or> (\<exists>x. fst m = Inr x \<and> fst (f x) = Inl e)"
  by (cases m; cases "fst m") (auto simp: and_then_def split: prod.splits)

lemma snd_and_then:
  "snd (and_then m f) = snd m @ (case fst m of Inl e \<Rightarrow> [] | Inr x \<Rightarrow> snd (f x))"
  by (cases m; cases "fst m") (auto simp: and_then_def split: prod.splits)

lemma fst_resolve: "fst (resolve x) = Inr x"
  by (simp add: resolve_def)

lemma snd_resolve: "snd (resolve x) = []"
  by (simp add: resolve_def)


lemma and_then_Inr: "fst m = Inr x \<Longrightarrow> and_then m f = (fst (f x), snd m @ snd (f x))"
  by (cases m) (simp add: and_then_def split: prod.splits)

lemma and_then_assoc: "and_then (and_then m f) g = and_then m (\<lambda>x. and_then (f x) g)"
  by (cases m; cases "fst m") (auto simp: and_then_def split: prod.splits sum.splits)

lemma and_then_resolve: "and_then (resolve x) f = f x"
  by (simp add: and_then_def resolve_def split: prod.splits)

lemma succeeded_iff: "succeeded m \<longleftrightarrow> (\<exists>x. fst m = Inr x)"
  by (cases "fst m") (simp_all add: succeeded_def)

lemma snd_parse_with: "snd (parse_with p msg schema x) = [SchemaParse p]"
  by (simp add: parse_with_def split: sum.splits error.splits)

lemma fst_parse_with:
  "fst (parse_with p msg schema x) =
     (case schema x of
        Inr v \<Rightarrow> Inr v
      | Inl (ZodError issues) \<Rightarrow> Inl (ValidationError msg (Some issues))
      | Inl e \<Rightarrow> Inl e)"
  by (simp add: parse_with_def split: sum.splits error.splits)

section \<open>The body parser past its gate\<close>

lemma parseBody_passed_gate:
  assumes "headers_get (req_headers request) ''content-type'' = Some contentType"
    and "str_includes contentType ''application/json''"
  shows "parseBody request schema =
           (case req_json request of
              Inl e \<Rightarrow> (Inl (ValidationError ''Invalid JSON body'' None), [ReadJson])
            | Inr bodyData \<Rightarrow>
                (fst (parse_with PartBody ''Request body validation failed'' schema bodyData),
                 [ReadJson, SchemaParse PartBody]))"
  using assms
  by (simp add: parseBody_def and_then_def snd_parse_with split: sum.splits prod.splits)
    (metis fst_conv snd_conv snd_parse_with)

section \<open>The orchestrator, step by step\<close>

lemma parsedParams_Inr:
  "fst (parsedParams request schemas) = Inr p \<Longrightarrow> schema_params schemas = None \<Longrightarrow>
     p = Original (req_params request)"
  by (simp add: parsedParams_def resolve_def)

lemma parsedQuery_Inr:
  "fst (parsedQuery request schemas) = Inr q \<Longrightarrow> schema_query schemas = None \<Longrightarrow>
     q = Original (req_query request)"
  by (simp add: parsedQuery_def resolve_def)

lemma parsedHeaders_Inr:
  "fst (parsedHeaders request schemas) = Inr h \<Longrightarrow> schema_headers schemas = None \<Longrightarrow>
     h = Original (req_headers request)"
  by (simp add: parsedHeaders_def resolve_def)

lemma parsedBody_Inr:
  "fst (parsedBody request schemas) = Inr b \<Longrightarrow> schema_body schemas = None \<Longrightarrow>
     b = Undefined"
  by (simp add: parsedBody_def resolve_def)

lemma snd_parsedParams:
  "snd (parsedParams request schemas) =
     (case schema_params schemas of None \<Rightarrow> [] | Some schema \<Rightarrow> [SchemaParse PartParams])"
  by (simp add: parsedParams_def parseRouteParams_def snd_and_then snd_parse_with snd_resolve
      split: option.splits sum.splits)

lemma snd_parsedQuery:
  "snd (parsedQuery request schemas) =
     (case schema_query schemas of None \<Rightarrow> [] | Some schema \<Rightarrow> [SchemaParse PartQuery])"
  by (simp add: parsedQuery_def parseQueryParams_def snd_and_then snd_parse_with snd_resolve
      split: option.splits sum.splits)

lemma snd_parsedHeaders:
  "snd (parsedHeaders request schemas) =
     (case schema_headers schemas of None \<Rightarrow> [] | Some schema \<Rightarrow> [SchemaParse PartHeaders])"
  by (simp add: parsedHeaders_def parseHeaders_def snd_and_then snd_parse_with snd_resolve
      split: option.splits sum.splits)

lemma parseRequest_Inr:
  "fst (parseRequest request schemas) = Inr parsed \<longleftrightarrow>
     (\<exists>p q b h. fst (parsedParams request schemas) = Inr p \<and>
        fst (parsedQuery request schemas) = Inr q \<and>
        fst (parsedBody request schemas) = Inr b \<and>
        fst (parsedHeaders request schemas) = Inr h \<and>
        parsed = \<lparr>parsed_params = p, parsed_query = q, parsed_body = b, parsed_headers = h\<rparr>)"
  unfolding parseRequest_def fst_and_then_Inr fst_resolve by auto

lemma parseRequest_Inl:
  "fst (parseRequest r s) = Inl e \<longleftrightarrow>
     fst (parsedParams r s) = Inl e \<or>
     succeeded (parsedParams r s) \<and> (fst (parsedQuery r s) = Inl e \<or>
     succeeded (parsedQuery r s) \<and> (fst (parsedBody r s) = Inl e \<or>
     succeeded (parsedBody r s) \<and> fst (parsedHeaders r s) = Inl e))"
  unfolding parseRequest_def fst_and_then_Inl fst_resolve succeeded_iff by auto

lemma snd_parseRequest:
  "snd (parseRequest request schemas) =
     snd (parsedParams request schemas) @
     (if succeeded (parsedParams request schemas)
      then snd (parsedQuery request schemas) @
        (if succeeded (parsedQuery request schemas)
         then snd (parsedBody request schemas) @
           (if succeeded (parsedBody request schemas)
            then snd (parsedHeaders request schemas) else [])
         else [])
      else [])"
  unfolding parseRequest_def snd_and_then snd_resolve succeeded_def
  by (simp split: sum.splits)

lemma no_body_schema_no_read:
  assumes "schema_body schemas = None"
  shows "ReadJson \<notin> set (snd (parseRequest request schemas))"
proof -
  have "snd (parsedBody request schemas) = []"
    using assms by (simp add: parsedBody_def resolve_def)
  then show ?thesis
    by (simp add: snd_parseRequest snd_parsedParams snd_parsedQuery snd_parsedHeaders
        split: option.splits)
qed


lemma fst_parsedQuery_rejects:
  assumes "schema_query schemas = Some querySchema"
    and "querySchema (convertQueryToObject (req_query request)) = Inl (ZodError issues)"
  shows "fst (parsedQuery request schemas) =
           Inl (ValidationError ''Query parameters validation failed'' (Some issues))"
  using assms
  by (simp add: parsedQuery_def parseQueryParams_def fst_and_then_Inl fst_parse_with)



section \<open>The dispatcher and the arguments of the handler\<close>

lemma wrapTypedHandler_arguments:
  "wrapTypedHandler schemas handler request ctx =
     catch_block (and_then (handler_arguments schemas request ctx) (invoke handler))"
  by (simp add: wrapTypedHandler_def handler_arguments_def and_then_assoc and_then_resolve)


lemma snd_handler_arguments:
  "snd (handler_arguments schemas request ctx) = snd (parseRequest request schemas)"
  by (simp add: handler_arguments_def snd_and_then snd_resolve split: sum.splits)

lemma handler_arguments_request:
  assumes "fst (handler_arguments schemas request ctx) = Inr args"
  shows "createSafeRequest (req_object request) (schema_body schemas \<noteq> None) =
           Inr (arg_request args)"
  using assms
  unfolding handler_arguments_def fst_and_then_Inr fst_resolve
  by auto

section \<open>The guard\<close>

lemma find_property_SAFE:
  "method \<in> set dangerousMethods \<Longrightarrow>
     find_property (SAFE_REQUEST_PROTOTYPE :: 'v jsobject) method =
       Some (Descriptor False (Getter (Inl (Error (blocked_message method)))))"
  by (auto simp: SAFE_REQUEST_PROTOTYPE_def dangerousMethods_def)

lemma guarded_get:
  assumes "guarded obj" and "method \<in> set dangerousMethods"
  shows "get_property obj method = Inl (Error (blocked_message method))"
proof -
  obtain props where obj: "obj = JSObject props (Some SAFE_REQUEST_PROTOTYPE)"
    using assms(1) by (cases obj) (simp add: guarded_def)
  have "map_of props method = None"
    using assms by (simp add: guarded_def obj)
  then have "find_property obj method =
      Some (Descriptor False (Getter (Inl (Error (blocked_message method)))))"
    by (simp add: obj find_property_SAFE [OF assms(2)])
  then show ?thesis by (simp add: get_property_def)
qed

lemma set_property_guarded:
  assumes "guarded target" and "set_property target key v = Inr target'"
  shows "guarded target'"
proof -
  obtain props where t: "target = JSObject props (Some SAFE_REQUEST_PROTOTYPE)"
    using assms(1) by (cases target) (simp add: guarded_def)
  have none: "\<forall>method \<in> set dangerousMethods. map_of props method = None"
    using assms(1) by (simp add: guarded_def t)
  have "key \<notin> set dangerousMethods"
  proof
    assume k: "key \<in> set dangerousMethods"
    then have "find_property target key =
        Some (Descriptor False (Getter (Inl (Error (blocked_message key)))))"
      using none by (simp add: t find_property_SAFE)
    then show False using assms(2) by (simp add: set_property_def split: if_splits)
  qed
  moreover have "proto target' = proto target \<and>
      (\<exists>d. own target' = AList.update key d (own target))"
    using assms(2)
    by (auto simp: set_property_def split: if_splits option.splits descriptor.splits slot.splits)
  ultimately show ?thesis
    using none by (auto simp: guarded_def t update_conv')
qed

lemma assign_properties_guarded:
  "guarded target \<Longrightarrow> assign_properties target props = Inr view \<Longrightarrow> guarded view"
proof (induction target props rule: assign_properties.induct)
  case (1 target)
  then show ?case by simp
next
  case (2 target key en sl rest)
  show ?case
  proof (cases en)
    case False
    then show ?thesis using 2 by simp
  next
    case True
    then obtain v target' where v: "(case sl of Data v \<Rightarrow> Inr v | Getter g \<Rightarrow> g) = Inr v"
      and s: "set_property target key v = Inr target'"
      and r: "assign_properties target' rest = Inr view"
      using "2.prems"(2) by (auto split: sum.splits)
    have "guarded target'"
      using "2.prems"(1) s by (rule set_property_guarded)
    then show ?thesis
      using "2.IH"(2) [OF _ v s] True r by simp
  qed
qed

lemma createSafeRequest_guarded:
  "createSafeRequest request True = Inr view \<Longrightarrow> guarded view"
proof -
  have "guarded (object_create (SAFE_REQUEST_PROTOTYPE :: 'v jsobject))"
    by (simp add: guarded_def object_create_def)
  then show "createSafeRequest request True = Inr view \<Longrightarrow> guarded view"
    by (auto simp: createSafeRequest_def object_assign_def intro: assign_properties_guarded)
qed

lemma blocked_message_mentions:
  "str_includes (blocked_message method) ''already been parsed''"
proof -
  have "blocked_message method =
      (''Cannot call request.'' @ method @ ''() - body has '') @ ''already been parsed'' @
      '' by the typed handler wrapper. '' @
      ''The parsed body is available in the 'body' parameter of your handler. '' @
      ''If you need the raw request, use the regular 'handler' instead of 'typedHandler'.''"
    by (simp add: blocked_message_def)
  then show ?thesis
    unfolding str_includes_iff by blast
qed

lemma find_property_own:
  "map_of (own obj) key = Some d \<Longrightarrow> find_property obj key = Some d"
  by (cases obj; cases "proto obj") simp_all

lemma set_property_own:
  assumes "set_property target key v = Inr target'"
  shows "\<exists>en. own target' = AList.update key (Descriptor en (Data v)) (own target)"
  using assms
  by (auto simp: set_property_def split: if_splits option.splits descriptor.splits slot.splits)

lemma assign_properties_own:
  assumes "assign_properties target props = Inr view"
    and "distinct (map fst props)"
  shows "(\<forall>key. key \<notin> fst ` set props \<longrightarrow> map_of (own view) key = map_of (own target) key) \<and>
         (\<forall>key sl. map_of props key = Some (Descriptor True sl) \<longrightarrow>
            (\<exists>en v. (case sl of Data v \<Rightarrow> Inr v | Getter g \<Rightarrow> g) = Inr v \<and>
               map_of (own view) key = Some (Descriptor en (Data v))))"
  using assms
proof (induction target props rule: assign_properties.induct)
  case (1 target)
  then show ?case by simp
next
  case (2 target key en sl rest)
  have d: "distinct (map fst rest)" and fresh: "key \<notin> fst ` set rest"
    using "2.prems"(2) by auto
  show ?case
  proof (cases en)
    case False
    then have "assign_properties target rest = Inr view"
      using "2.prems"(1) by simp
    from "2.IH"(1) [OF _ this d] False fresh show ?thesis
      by (auto simp: image_iff)
  next
    case True
    then obtain v target' where v: "(case sl of Data v \<Rightarrow> Inr v | Getter g \<Rightarrow> g) = Inr v"
      and s: "set_property target key v = Inr target'"
      and r: "assign_properties target' rest = Inr view"
      using "2.prems"(1) by (auto split: sum.splits)
    obtain en' where own': "own target' = AList.update key (Descriptor en' (Data v)) (own target)"
      using set_property_own [OF s] by blast
    have IH: "(\<forall>k. k \<notin> fst ` set rest \<longrightarrow> map_of (own view) k = map_of (own target') k) \<and>
         (\<forall>k sl. map_of rest k = Some (Descriptor True sl) \<longrightarrow>
            (\<exists>en v. (case sl of Data v \<Rightarrow> Inr v | Getter g \<Rightarrow> g) = Inr v \<and>
               map_of (own view) k = Some (Descriptor en (Data v))))"
      using "2.IH"(2) [OF _ v s r d] True by simp
    have here: "map_of (own view) key = Some (Descriptor en' (Data v))"
      using IH fresh by (simp add: own' update_conv')
    show ?thesis
    proof (intro conjI allI impI)
      fix k
      assume "k \<notin> fst ` set ((key, Descriptor en sl) # rest)"
      then show "map_of (own view) k = map_of (own target) k"
        using IH by (simp add: own' update_conv')
    next
      fix k sl'
      assume "map_of ((key, Descriptor en sl) # rest) k = Some (Descriptor True sl')"
      then show "\<exists>en v. (case sl' of Data v \<Rightarrow> Inr v | Getter g \<Rightarrow> g) = Inr v \<and>
          map_of (own view) k = Some (Descriptor en (Data v))"
        using IH here v by (auto split: if_splits)
    qed
  qed
qed

section \<open>The example inputs, evaluated\<close>

lemma todo_content_type:
  "headers_get (req_headers todo_request) ''content-type'' =
     Some ''application/json; charset=utf-8''"
  by (simp add: todo_request_def framework_request_def headers_get_def toLowerCase_def
      lowerChar_def)

lemma todo_json: "req_json todo_request = Inr (JObject [(''title'', JString ''x'')])"
  by (simp add: todo_request_def framework_request_def)

lemma broken_content_type:
  "headers_get (req_headers broken_json_request) ''content-type'' = Some ''application/json''"
  by (simp add: broken_json_request_def framework_request_def headers_get_def toLowerCase_def
      lowerChar_def)

lemma todo_request_unparsed:
  "parseRequest todo_request no_schemas =
     (Inr \<lparr>parsed_params = Original [(''id'', ''42'')],
           parsed_query = Original [(''tag'', ''a''), (''tag'', ''b'')],
           parsed_body = Undefined,
           parsed_headers = Original [(''content-type'', ''application/json; charset=utf-8'')]\<rparr>,
      [])"
  by (simp add: parseRequest_def parsedParams_def parsedQuery_def parsedBody_def
      parsedHeaders_def and_then_def resolve_def todo_request_def framework_request_def
      no_schemas_def)

lemma todo_params_rejecting:
  "parseRequest todo_request params_rejecting =
     (Inl (ValidationError ''Route parameters validation failed'' (Some [required_issue])),
      [SchemaParse PartParams])"
  by (simp add: parseRequest_def parsedParams_def parseRouteParams_def
      parse_with_def and_then_def resolve_def params_rejecting_def reject_all_def)

lemma todo_query_rejecting:
  "parseRequest todo_request query_rejecting =
     (Inl (ValidationError ''Query parameters validation failed'' (Some [required_issue])),
      [SchemaParse PartParams, SchemaParse PartQuery])"
  by (simp add: parseRequest_def parsedParams_def parsedQuery_def parseRouteParams_def
      parseQueryParams_def parse_with_def and_then_def resolve_def query_rejecting_def
      accept_all_def reject_all_def)




lemma todo_body_accepting:
  "parseRequest todo_request body_accepting =
     (Inr \<lparr>parsed_params = Original [(''id'', ''42'')],
           parsed_query = Original [(''tag'', ''a''), (''tag'', ''b'')],
           parsed_body = Validated JNull,
           parsed_headers = Original [(''content-type'', ''application/json; charset=utf-8'')]\<rparr>,
      [ReadJson, SchemaParse PartBody])"
proof -
  have "str_includes ''application/json; charset=utf-8'' ''application/json''"
    by simp
  then have "parseBody todo_request accept_all = (Inr JNull, [ReadJson, SchemaParse PartBody])"
    by (simp add: parseBody_passed_gate [OF todo_content_type] todo_json fst_parse_with
        accept_all_def)
  moreover have "req_params todo_request = [(''id'', ''42'')]"
    and "req_query todo_request = [(''tag'', ''a''), (''tag'', ''b'')]"
    and "req_headers todo_request = [(''content-type'', ''application/json; charset=utf-8'')]"
    by (simp_all add: todo_request_def framework_request_def)
  ultimately show ?thesis
    by (simp add: parseRequest_def parsedParams_def parsedQuery_def parsedBody_def
        parsedHeaders_def and_then_def resolve_def body_accepting_def)
qed

lemma todo_createSafeRequest:
  "createSafeRequest (req_object todo_request) True = Inr todo_safe_request"
  by (simp add: createSafeRequest_def object_assign_def object_create_def set_property_def
      SAFE_REQUEST_PROTOTYPE_def dangerousMethods_def todo_request_def framework_request_def
      todo_safe_request_def)

lemma todo_arguments:
  "handler_arguments no_schemas todo_request () =
     (Inr \<lparr>arg_params = Original [(''id'', ''42'')],
           arg_query = Original [(''tag'', ''a''), (''tag'', ''b'')],
           arg_body = Undefined,
           arg_headers = Original [(''content-type'', ''application/json; charset=utf-8'')],
           arg_request = req_object todo_request, arg_context = ()\<rparr>, [])"
proof -
  have "schema_body no_schemas = None"
    by (simp add: no_schemas_def)
  then show ?thesis
    by (simp add: handler_arguments_def todo_request_unparsed and_then_def resolve_def
        createSafeRequest_def)
qed

lemma todo_guarded_arguments:
  "handler_arguments body_accepting todo_request () =
     (Inr \<lparr>arg_params = Original [(''id'', ''42'')],
           arg_query = Original [(''tag'', ''a''), (''tag'', ''b'')],
           arg_body = Validated JNull,
           arg_headers = Original [(''content-type'', ''application/json; charset=utf-8'')],
           arg_request = todo_safe_request, arg_context = ()\<rparr>,
      [ReadJson, SchemaParse PartBody])"
proof -
  have "schema_body body_accepting \<noteq> None"
    by (simp add: body_accepting_def)
  then show ?thesis
    by (simp add: handler_arguments_def todo_body_accepting todo_createSafeRequest
        and_then_def resolve_def)
qed

section \<open>C1: parts without a schema\<close>

text \<open>
  C1, as the code has it. When \<^verbatim>\<open>parseRequest\<close> returns, each of the fields
  \<^verbatim>\<open>params\<close>, \<^verbatim>\<open>query\<close> and \<^verbatim>\<open>headers\<close> whose bundle field has no schema is the
  request's own value, handed over as it is. The field \<^verbatim>\<open>body\<close> is different: without
  a body schema it is \<^verbatim>\<open>undefined\<close>, and the body is not read at all.
\<close>

theorem parseRequest_pass_through:
  assumes "fst (parseRequest request schemas) = Inr parsed"
  shows "(schema_params schemas = None \<longrightarrow>
            parsed_params parsed = Original (req_params request)) \<and>
         (schema_query schemas = None \<longrightarrow>
            parsed_query parsed = Original (req_query request)) \<and>
         (schema_headers schemas = None \<longrightarrow>
            parsed_headers parsed = Original (req_headers request)) \<and>
         (schema_body schemas = None \<longrightarrow>
            parsed_body parsed = Undefined \<and>
            ReadJson \<notin> set (snd (parseRequest request schemas)))"
proof -
  from assms obtain p q b h where
    p: "fst (parsedParams request schemas) = Inr p" and
    q: "fst (parsedQuery request schemas) = Inr q" and
    b: "fst (parsedBody request schemas) = Inr b" and
    h: "fst (parsedHeaders request schemas) = Inr h" and
    parsed: "parsed = \<lparr>parsed_params = p, parsed_query = q, parsed_body = b, parsed_headers = h\<rparr>"
    unfolding parseRequest_Inr by blast
  have "schema_body schemas = None \<Longrightarrow>
      ReadJson \<notin> set (snd (parseRequest request schemas))"
    by (rule no_body_schema_no_read)
  then show ?thesis
    using parsedParams_Inr [OF p] parsedQuery_Inr [OF q] parsedHeaders_Inr [OF h]
      parsedBody_Inr [OF b] by (simp add: parsed)
qed

text \<open>The theorem at a request with a JSON body and a bundle without any schema.\<close>

theorem parseRequest_pass_through_witness:
  "fst (parseRequest todo_request no_schemas) =
     Inr \<lparr>parsed_params = Original [(''id'', ''42'')],
          parsed_query = Original [(''tag'', ''a''), (''tag'', ''b'')],
          parsed_body = Undefined,
          parsed_headers = Original [(''content-type'', ''application/json; charset=utf-8'')]\<rparr> \<and>
   schema_params no_schemas = None \<and> schema_query no_schemas = None \<and>
   schema_headers no_schemas = None \<and> schema_body no_schemas = None \<and>
   req_params todo_request = [(''id'', ''42'')] \<and>
   req_query todo_request = [(''tag'', ''a''), (''tag'', ''b'')] \<and>
   req_headers todo_request = [(''content-type'', ''application/json; charset=utf-8'')] \<and>
   ReadJson \<notin> set (snd (parseRequest todo_request no_schemas))"
proof -
  have r: "req_params todo_request = [(''id'', ''42'')] \<and>
      req_query todo_request = [(''tag'', ''a''), (''tag'', ''b'')] \<and>
      req_headers todo_request = [(''content-type'', ''application/json; charset=utf-8'')]"
    by (simp add: todo_request_def framework_request_def)
  have s: "schema_params no_schemas = None \<and> schema_query no_schemas = None \<and>
      schema_headers no_schemas = None \<and> schema_body no_schemas = None"
    by (simp add: no_schemas_def)
  show ?thesis
    using parseRequest_pass_through [of todo_request no_schemas] r s
    by (simp add: todo_request_unparsed)
qed

text \<open>
  C1 as the claim states it fails for the body: the request carries a JSON body, the
  bundle has no body schema, and the field is \<^verbatim>\<open>undefined\<close>, not that body.
\<close>

theorem parsed_body_not_original:
  "schema_body no_schemas = None \<and>
   req_json todo_request = Inr (JObject [(''title'', JString ''x'')]) \<and>
   fst (parseRequest todo_request no_schemas) =
     Inr \<lparr>parsed_params = Original [(''id'', ''42'')],
          parsed_query = Original [(''tag'', ''a''), (''tag'', ''b'')],
          parsed_body = Undefined,
          parsed_headers = Original [(''content-type'', ''application/json; charset=utf-8'')]\<rparr> \<and>
   (Undefined :: (json, json) parsed) \<noteq> Original (JObject [(''title'', JString ''x'')])"
proof -
  have "req_json todo_request = Inr (JObject [(''title'', JString ''x'')])"
    by (simp add: todo_request_def framework_request_def)
  moreover have "schema_body no_schemas = None"
    by (simp add: no_schemas_def)
  ultimately show ?thesis
    by (simp add: todo_request_unparsed)
qed

section \<open>C2: the order of parsing and the first error\<close>

text \<open>
  C2, as the code has it. When the params schema is absent or accepts and the query schema
  rejects, \<^verbatim>\<open>parseRequest\<close> throws the query \<^verbatim>\<open>ValidationError\<close> with the schema's
  issues; it has called the params schema (if there is one) and the query schema and
  nothing else, so the body is not read and the body schema does not run, whatever that
  schema would do. In general (the last two conjuncts, for any request \<open>r\<close> and bundle
  \<open>s\<close>): the error of \<^verbatim>\<open>parseRequest\<close> is the error of the first step that throws in
  the order params, query, body, headers, unchanged, and the calls made are those of the
  steps up to and including that one.
\<close>

theorem parseRequest_fail_fast:
  assumes "succeeded (parsedParams request schemas)"
    and "schema_query schemas = Some querySchema"
    and "querySchema (convertQueryToObject (req_query request)) = Inl (ZodError issues)"
  shows "fst (parseRequest request schemas) =
           Inl (ValidationError ''Query parameters validation failed'' (Some issues)) \<and>
         snd (parseRequest request schemas) =
           snd (parsedParams request schemas) @ [SchemaParse PartQuery] \<and>
         ReadJson \<notin> set (snd (parseRequest request schemas)) \<and>
         SchemaParse PartBody \<notin> set (snd (parseRequest request schemas)) \<and>
         (fst (parseRequest r s) = Inl e \<longleftrightarrow>
            fst (parsedParams r s) = Inl e \<or>
            succeeded (parsedParams r s) \<and> (fst (parsedQuery r s) = Inl e \<or>
            succeeded (parsedQuery r s) \<and> (fst (parsedBody r s) = Inl e \<or>
            succeeded (parsedBody r s) \<and> fst (parsedHeaders r s) = Inl e))) \<and>
         snd (parseRequest r s) =
           snd (parsedParams r s) @
           (if succeeded (parsedParams r s)
            then snd (parsedQuery r s) @
              (if succeeded (parsedQuery r s)
               then snd (parsedBody r s) @
                 (if succeeded (parsedBody r s) then snd (parsedHeaders r s) else [])
               else [])
            else [])"
proof -
  have q: "fst (parsedQuery request schemas) =
      Inl (ValidationError ''Query parameters validation failed'' (Some issues))"
    using assms(2,3) by (rule fst_parsedQuery_rejects)
  then have nq: "\<not> succeeded (parsedQuery request schemas)"
    by (simp add: succeeded_def)
  have 1: "fst (parseRequest request schemas) =
      Inl (ValidationError ''Query parameters validation failed'' (Some issues))"
    using assms(1) q by (simp add: parseRequest_Inl)
  have 2: "snd (parseRequest request schemas) =
      snd (parsedParams request schemas) @ [SchemaParse PartQuery]"
    using assms(1,2) nq by (simp add: snd_parseRequest snd_parsedQuery)
  have 3: "ReadJson \<notin> set (snd (parseRequest request schemas))"
    and 4: "SchemaParse PartBody \<notin> set (snd (parseRequest request schemas))"
    unfolding 2 by (simp_all add: snd_parsedParams split: option.splits)
  show ?thesis
    using 1 2 3 4 parseRequest_Inl [of r s e] snd_parseRequest [of r s] by simp
qed

text \<open>
  The theorem at a bundle whose params schema accepts and whose query and body schemas
  both reject.
\<close>

theorem parseRequest_fail_fast_witness:
  "succeeded (parsedParams todo_request query_rejecting) \<and>
   schema_query query_rejecting = Some reject_all \<and>
   schema_body query_rejecting = Some reject_all \<and>
   reject_all (convertQueryToObject (req_query todo_request)) = Inl (ZodError [required_issue]) \<and>
   reject_all (JObject [(''title'', JString ''x'')]) = Inl (ZodError [required_issue]) \<and>
   parseRequest todo_request query_rejecting =
     (Inl (ValidationError ''Query parameters validation failed'' (Some [required_issue])),
      [SchemaParse PartParams, SchemaParse PartQuery])"
proof -
  have p: "succeeded (parsedParams todo_request query_rejecting)"
    by (simp add: succeeded_def parsedParams_def parseRouteParams_def parse_with_def
        and_then_def resolve_def query_rejecting_def accept_all_def)
  have s: "schema_query query_rejecting = Some reject_all"
    and b: "schema_body query_rejecting = Some reject_all"
    by (simp_all add: query_rejecting_def)
  have q: "reject_all (convertQueryToObject (req_query todo_request)) =
      Inl (ZodError [required_issue])"
    by (simp add: reject_all_def)
  have j: "reject_all (JObject [(''title'', JString ''x'')]) = Inl (ZodError [required_issue])"
    by (simp add: reject_all_def)
  have "fst (parseRequest todo_request query_rejecting) =
      Inl (ValidationError ''Query parameters validation failed'' (Some [required_issue]))"
    by (rule parseRequest_fail_fast [OF p s q, THEN conjunct1])
  then show ?thesis
    using p s b q j by (simp add: todo_query_rejecting)
qed

text \<open>
  C2 as the claim states it fails when the bundle has a params schema that rejects as
  well: the query and the body schema both reject their inputs, and the error thrown is
  the one of the route parameters; the query schema is not even called.
\<close>

theorem params_error_comes_first:
  "schema_query params_rejecting = Some reject_all \<and>
   schema_body params_rejecting = Some reject_all \<and>
   reject_all (convertQueryToObject (req_query todo_request)) = Inl (ZodError [required_issue]) \<and>
   reject_all (JObject [(''title'', JString ''x'')]) = Inl (ZodError [required_issue]) \<and>
   req_json todo_request = Inr (JObject [(''title'', JString ''x'')]) \<and>
   parseRequest todo_request params_rejecting =
     (Inl (ValidationError ''Route parameters validation failed'' (Some [required_issue])),
      [SchemaParse PartParams]) \<and>
   fst (parseRequest todo_request params_rejecting) \<noteq>
     Inl (ValidationError ''Query parameters validation failed'' (Some [required_issue]))"
proof -
  have "req_json todo_request = Inr (JObject [(''title'', JString ''x'')])"
    by (simp add: todo_request_def framework_request_def)
  moreover have "schema_query params_rejecting = Some reject_all"
    and "schema_body params_rejecting = Some reject_all"
    by (simp_all add: params_rejecting_def)
  moreover have "reject_all (convertQueryToObject (req_query todo_request)) =
      Inl (ZodError [required_issue])"
    and "reject_all (JObject [(''title'', JString ''x'')]) = Inl (ZodError [required_issue])"
    by (simp_all add: reject_all_def)
  ultimately show ?thesis
    by (simp add: todo_params_rejecting)
qed

section \<open>C3: errors of the handler\<close>

text \<open>
  C3, as the code has it. The handler is called inside the \<^verbatim>\<open>try\<close> block, so the
  \<^verbatim>\<open>catch\<close> block sees what it throws. An error of the handler that is not a
  \<^verbatim>\<open>ValidationError\<close> leaves the dispatcher unchanged; a \<^verbatim>\<open>ValidationError\<close> of the
  handler is turned into the 400 response like one of the parsers.
\<close>

theorem handler_errors:
  assumes "fst (handler_arguments schemas request ctx) = Inr args"
  shows "(handler args = Inl e \<and> \<not> isValidationError e \<longrightarrow>
            wrapTypedHandler schemas handler request ctx =
              (Inl e, snd (handler_arguments schemas request ctx) @ [CallHandler])) \<and>
         (handler' args = Inl (ValidationError msg zodError) \<longrightarrow>
            wrapTypedHandler schemas handler' request ctx =
              (Inr \<lparr>status = Some 400,
          jsonBody = Some (JObject [(''error'', JString msg),
            (''details'', JArray (case zodError of Some issues \<Rightarrow> issues | None \<Rightarrow> []))])\<rparr>,
               snd (handler_arguments schemas request ctx) @ [CallHandler]))"
  unfolding wrapTypedHandler_arguments and_then_Inr [OF assms]
  by (cases e) (simp_all add: invoke_def catch_block_def)

text \<open>The theorem at a handler that throws an \<^verbatim>\<open>Error\<close> and one that throws a
  \<^verbatim>\<open>ValidationError\<close>.\<close>

theorem handler_errors_witness:
  "fst (handler_arguments no_schemas todo_request ()) =
     Inr \<lparr>arg_params = Original [(''id'', ''42'')],
          arg_query = Original [(''tag'', ''a''), (''tag'', ''b'')],
          arg_body = Undefined,
          arg_headers = Original [(''content-type'', ''application/json; charset=utf-8'')],
          arg_request = req_object todo_request, arg_context = ()\<rparr> \<and>
   \<not> isValidationError (Error ''database unreachable'') \<and>
   wrapTypedHandler no_schemas failing_handler todo_request () =
     (Inl (Error ''database unreachable''), [CallHandler]) \<and>
   wrapTypedHandler no_schemas refusing_handler todo_request () =
     (Inr \<lparr>status = Some 400,
          jsonBody = Some (JObject [(''error'', JString ''Todo is locked''),
            (''details'', JArray [])])\<rparr>, [CallHandler])"
proof -
  have a: "fst (handler_arguments no_schemas todo_request ()) =
     Inr \<lparr>arg_params = Original [(''id'', ''42'')],
          arg_query = Original [(''tag'', ''a''), (''tag'', ''b'')],
          arg_body = Undefined,
          arg_headers = Original [(''content-type'', ''application/json; charset=utf-8'')],
          arg_request = req_object todo_request, arg_context = ()\<rparr>"
    by (simp add: todo_arguments)
  show ?thesis
    using a handler_errors [OF a, where handler = failing_handler
        and e = "Error ''database unreachable''" and handler' = refusing_handler
        and msg = "''Todo is locked''" and zodError = None]
    by (simp add: failing_handler_def refusing_handler_def todo_arguments)
qed

text \<open>
  C3 as the claim states it fails: parsing succeeds, the handler is called and throws a
  \<^verbatim>\<open>ValidationError\<close>, and the dispatcher returns a 400 response instead of letting
  the error through.
\<close>

theorem handler_ValidationError_is_caught:
  "fst (handler_arguments no_schemas todo_request ()) =
     Inr \<lparr>arg_params = Original [(''id'', ''42'')],
          arg_query = Original [(''tag'', ''a''), (''tag'', ''b'')],
          arg_body = Undefined,
          arg_headers = Original [(''content-type'', ''application/json; charset=utf-8'')],
          arg_request = req_object todo_request, arg_context = ()\<rparr> \<and>
   refusing_handler
     \<lparr>arg_params = Original [(''id'', ''42'')],
      arg_query = Original [(''tag'', ''a''), (''tag'', ''b'')],
      arg_body = Undefined,
      arg_headers = Original [(''content-type'', ''application/json; charset=utf-8'')],
      arg_request = req_object todo_request, arg_context = ()\<rparr> =
     Inl (ValidationError ''Todo is locked'' None) \<and>
   wrapTypedHandler no_schemas refusing_handler todo_request () =
     (Inr \<lparr>status = Some 400,
           jsonBody = Some (JObject [(''error'', JString ''Todo is locked''),
             (''details'', JArray [])])\<rparr>,
      [CallHandler]) \<and>
   fst (wrapTypedHandler no_schemas refusing_handler todo_request ()) \<noteq>
     Inl (ValidationError ''Todo is locked'' None)"
  by (simp add: wrapTypedHandler_arguments todo_arguments and_then_def invoke_def
      refusing_handler_def catch_block_def)

section \<open>C4: the 400 response\<close>



section \<open>C5: the content-type gate\<close>

text \<open>
  C5, as the code has it. The gate looks for the substring \<^verbatim>\<open>application/json\<close> in
  the value of the \<^verbatim>\<open>content-type\<close> header, with regard to case. When the value does
  not contain it, or the request has no such header, \<^verbatim>\<open>parseBody\<close> throws the
  \<^verbatim>\<open>ValidationError\<close> with the message \<^verbatim>\<open>Content-Type must be application/json\<close> and
  nothing attached, whatever the body and the schema are, and it has made no call: the
  body is not read and no schema has run.
\<close>

theorem parseBody_content_type_gate:
  "(headers_get (req_headers request) ''content-type'' = Some contentType \<and>
    \<not> str_includes contentType ''application/json'' \<longrightarrow>
      parseBody request schema =
        (Inl (ValidationError ''Content-Type must be application/json'' None), [])) \<and>
   (headers_get (req_headers request') ''content-type'' = None \<longrightarrow>
      parseBody request' schema' =
        (Inl (ValidationError ''Content-Type must be application/json'' None), []))"
  by (simp add: parseBody_def reject_def)

text \<open>The theorem at \<^verbatim>\<open>content-type: text/plain\<close> with a body, and at a request without
  headers.\<close>

theorem parseBody_content_type_gate_witness:
  "headers_get (req_headers text_request) ''content-type'' = Some ''text/plain'' \<and>
   \<not> str_includes ''text/plain'' ''application/json'' \<and>
   req_json text_request = Inr (JString ''hello'') \<and>
   parseBody text_request accept_all =
     (Inl (ValidationError ''Content-Type must be application/json'' None), []) \<and>
   headers_get (req_headers bare_request) ''content-type'' = None \<and>
   parseBody bare_request accept_all =
     (Inl (ValidationError ''Content-Type must be application/json'' None), [])"
proof -
  have h: "headers_get (req_headers text_request) ''content-type'' = Some ''text/plain''"
    by (simp add: text_request_def framework_request_def headers_get_def toLowerCase_def
        lowerChar_def)
  have n: "\<not> str_includes ''text/plain'' ''application/json''"
    by simp
  have j: "req_json text_request = Inr (JString ''hello'')"
    by (simp add: text_request_def framework_request_def)
  have b: "headers_get (req_headers bare_request) ''content-type'' = None"
    by (simp add: bare_request_def framework_request_def headers_get_def)
  show ?thesis
    using h n j b parseBody_content_type_gate [where request = text_request
        and contentType = "''text/plain''" and schema = accept_all
        and request' = bare_request and schema' = accept_all]
    by simp
qed

text \<open>
  C5 as the claim states it fails for a content type that does not indicate JSON but
  contains the substring: the media type of \<^verbatim>\<open>text/plain; note=application/json\<close> is
  \<^verbatim>\<open>text/plain\<close>, and \<^verbatim>\<open>parseBody\<close> throws nothing, reads the body and runs the
  schema.
\<close>

theorem text_plain_passes_the_gate:
  "headers_get (req_headers annotated_text_request) ''content-type'' =
     Some ''text/plain; note=application/json'' \<and>
   takeWhile (\<lambda>c. c \<noteq> CHR '';'') ''text/plain; note=application/json'' = ''text/plain'' \<and>
   req_json annotated_text_request = Inr (JString ''hello'') \<and>
   parseBody annotated_text_request accept_all =
     (Inr JNull, [ReadJson, SchemaParse PartBody]) \<and>
   fst (parseBody annotated_text_request accept_all) \<noteq>
     Inl (ValidationError ''Content-Type must be application/json'' None)"
proof -
  have h: "headers_get (req_headers annotated_text_request) ''content-type'' =
      Some ''text/plain; note=application/json''"
    by (simp add: annotated_text_request_def framework_request_def headers_get_def
        toLowerCase_def lowerChar_def)
  have i: "str_includes ''text/plain; note=application/json'' ''application/json''"
    by simp
  have j: "req_json annotated_text_request = Inr (JString ''hello'')"
    by (simp add: annotated_text_request_def framework_request_def)
  have "parseBody annotated_text_request accept_all =
      (Inr JNull, [ReadJson, SchemaParse PartBody])"
    by (simp add: parseBody_passed_gate [OF h i] j fst_parse_with accept_all_def)
  then show ?thesis
    using h j by simp
qed

section \<open>C6: a body that is not JSON\<close>

text \<open>
  C6, as the code has it. A JSON content type is, for the gate, a value of the
  \<^verbatim>\<open>content-type\<close> header that contains the substring \<^verbatim>\<open>application/json\<close>, with
  regard to case. With such a value, when \<^verbatim>\<open>request.json()\<close> fails, \<^verbatim>\<open>parseBody\<close>
  throws the \<^verbatim>\<open>ValidationError\<close> with the message \<^verbatim>\<open>Invalid JSON body\<close> and nothing
  attached, after the one read of the body and without a call of the schema; this error
  differs from every error of a schema rejection. For any request and schema (the last
  conjunct): the body schema is called exactly when the gate is passed and the body was
  parsed as JSON.
\<close>

theorem parseBody_invalid_json:
  assumes "headers_get (req_headers request) ''content-type'' = Some contentType"
    and "str_includes contentType ''application/json''"
    and "req_json request = Inl err"
  shows "parseBody request schema = (Inl (ValidationError ''Invalid JSON body'' None), [ReadJson]) \<and>
         ValidationError ''Invalid JSON body'' None \<noteq>
           ValidationError ''Request body validation failed'' zodError \<and>
         (SchemaParse PartBody \<in> set (snd (parseBody request' schema')) \<longleftrightarrow>
            (\<exists>ct bodyData. headers_get (req_headers request') ''content-type'' = Some ct \<and>
               str_includes ct ''application/json'' \<and> req_json request' = Inr bodyData))"
proof -
  have 1: "parseBody request schema =
      (Inl (ValidationError ''Invalid JSON body'' None), [ReadJson])"
    using assms by (simp add: parseBody_passed_gate)
  have 3: "SchemaParse PartBody \<in> set (snd (parseBody request' schema')) \<longleftrightarrow>
      (\<exists>ct bodyData. headers_get (req_headers request') ''content-type'' = Some ct \<and>
         str_includes ct ''application/json'' \<and> req_json request' = Inr bodyData)"
  proof (cases "headers_get (req_headers request') ''content-type''")
    case None
    then show ?thesis by (simp add: parseBody_def reject_def)
  next
    case (Some ct)
    show ?thesis
    proof (cases "str_includes ct ''application/json''")
      case True
      show ?thesis
        using Some True by (cases "req_json request'") (simp_all add: parseBody_passed_gate)
    next
      case False
      then show ?thesis using Some by (simp add: parseBody_def reject_def)
    qed
  qed
  show ?thesis using 1 3 by simp
qed

text \<open>The theorem at a request with a JSON content type whose body is not JSON.\<close>

theorem parseBody_invalid_json_witness:
  "headers_get (req_headers broken_json_request) ''content-type'' = Some ''application/json'' \<and>
   str_includes ''application/json'' ''application/json'' \<and>
   req_json broken_json_request = Inl (Error ''Unexpected token h in JSON at position 0'') \<and>
   parseBody broken_json_request reject_all =
     (Inl (ValidationError ''Invalid JSON body'' None), [ReadJson])"
proof -
  have i: "str_includes ''application/json'' ''application/json''"
    by simp
  have j: "req_json broken_json_request =
      Inl (Error ''Unexpected token h in JSON at position 0'')"
    by (simp add: broken_json_request_def framework_request_def)
  show ?thesis
    using broken_content_type i j
      parseBody_invalid_json [OF broken_content_type i j, THEN conjunct1, of reject_all]
    by simp
qed

text \<open>
  C6 as the claim states it fails for a JSON content type that the gate does not
  recognise: \<^verbatim>\<open>Application/JSON\<close> names the JSON media type (media types are matched
  without regard to case), the body is not JSON, and \<^verbatim>\<open>parseBody\<close> throws the
  content-type error without reading the body, not \<^verbatim>\<open>Invalid JSON body\<close>.
\<close>

theorem capitalised_json_type_is_refused:
  "headers_get (req_headers capitalised_json_request) ''content-type'' =
     Some ''Application/JSON'' \<and>
   toLowerCase ''Application/JSON'' = ''application/json'' \<and>
   req_json capitalised_json_request =
     Inl (Error ''Unexpected token h in JSON at position 0'') \<and>
   parseBody capitalised_json_request accept_all =
     (Inl (ValidationError ''Content-Type must be application/json'' None), []) \<and>
   fst (parseBody capitalised_json_request accept_all) \<noteq>
     Inl (ValidationError ''Invalid JSON body'' None)"
proof -
  have h: "headers_get (req_headers capitalised_json_request) ''content-type'' =
      Some ''Application/JSON''"
    by (simp add: capitalised_json_request_def framework_request_def headers_get_def
        toLowerCase_def lowerChar_def)
  have l: "toLowerCase ''Application/JSON'' = ''application/json''"
    by (simp add: toLowerCase_def lowerChar_def)
  have j: "req_json capitalised_json_request =
      Inl (Error ''Unexpected token h in JSON at position 0'')"
    by (simp add: capitalised_json_request_def framework_request_def)
  have "parseBody capitalised_json_request accept_all =
      (Inl (ValidationError ''Content-Type must be application/json'' None), [])"
    by (simp add: parseBody_def reject_def h)
  then show ?thesis
    using h l j by simp
qed

section \<open>C7: the request given to the handler\<close>

text \<open>
  C7. Whenever the handler is called for a bundle with a body schema, the request it is
  given throws on a read of each of \<^verbatim>\<open>json\<close>, \<^verbatim>\<open>text\<close>, \<^verbatim>\<open>formData\<close>,
  \<^verbatim>\<open>arrayBuffer\<close> and \<^verbatim>\<open>blob\<close> (so every call of one throws, before the method could
  run), and the message of the error contains \<^verbatim>\<open>already been parsed\<close>. For a bundle
  without a body schema the handler is given the request object itself, and the body has
  not been read, so its body methods do what they do on the request. The last conjunct
  says that \<open>handler_arguments\<close> is what \<^verbatim>\<open>wrapTypedHandler\<close> calls the handler with.
\<close>

theorem handler_request_guard:
  "(fst (handler_arguments schemasB requestB ctxB) = Inr argsB \<and> schema_body schemasB \<noteq> None \<longrightarrow>
      (\<forall>method \<in> set dangerousMethods.
         get_property (arg_request argsB) method = Inl (Error (blocked_message method)) \<and>
         str_includes (blocked_message method) ''already been parsed'')) \<and>
   (fst (handler_arguments schemas request ctx) = Inr args \<and> schema_body schemas = None \<longrightarrow>
      arg_request args = req_object request \<and>
      ReadJson \<notin> set (snd (handler_arguments schemas request ctx))) \<and>
   wrapTypedHandler s h r c = catch_block (and_then (handler_arguments s r c) (invoke h))"
proof (intro conjI impI ballI)
  fix m
  assume a: "fst (handler_arguments schemasB requestB ctxB) = Inr argsB \<and>
      schema_body schemasB \<noteq> None"
    and m: "m \<in> set dangerousMethods"
  have "createSafeRequest (req_object requestB) True = Inr (arg_request argsB)"
    using a handler_arguments_request [of schemasB requestB ctxB argsB] by simp
  then have "guarded (arg_request argsB)"
    by (rule createSafeRequest_guarded)
  then show "get_property (arg_request argsB) m = Inl (Error (blocked_message m))"
    using m by (rule guarded_get)
next
  fix m
  show "str_includes (blocked_message m) ''already been parsed''"
    by (rule blocked_message_mentions)
next
  assume a: "fst (handler_arguments schemas request ctx) = Inr args \<and>
      schema_body schemas = None"
  then show "arg_request args = req_object request"
    using handler_arguments_request [of schemas request ctx args]
    by (simp add: createSafeRequest_def)
next
  assume a: "fst (handler_arguments schemas request ctx) = Inr args \<and>
      schema_body schemas = None"
  then show "ReadJson \<notin> set (snd (handler_arguments schemas request ctx))"
    by (simp add: snd_handler_arguments no_body_schema_no_read)
next
  show "wrapTypedHandler s h r c = catch_block (and_then (handler_arguments s r c) (invoke h))"
    by (rule wrapTypedHandler_arguments)
qed

text \<open>
  The theorem at a bundle with a body schema and at one without, for the same request.
\<close>

theorem handler_request_guard_witness:
  "fst (handler_arguments body_accepting todo_request ()) =
     Inr \<lparr>arg_params = Original [(''id'', ''42'')],
          arg_query = Original [(''tag'', ''a''), (''tag'', ''b'')],
          arg_body = Validated JNull,
          arg_headers = Original [(''content-type'', ''application/json; charset=utf-8'')],
          arg_request = todo_safe_request, arg_context = ()\<rparr> \<and>
   schema_body body_accepting \<noteq> None \<and>
   get_property todo_safe_request ''json'' = Inl (Error (blocked_message ''json'')) \<and>
   get_property todo_safe_request ''text'' = Inl (Error (blocked_message ''text'')) \<and>
   get_property todo_safe_request ''formData'' = Inl (Error (blocked_message ''formData'')) \<and>
   get_property todo_safe_request ''arrayBuffer'' = Inl (Error (blocked_message ''arrayBuffer'')) \<and>
   get_property todo_safe_request ''blob'' = Inl (Error (blocked_message ''blob'')) \<and>
   str_includes (blocked_message ''json'') ''already been parsed'' \<and>
   fst (handler_arguments no_schemas todo_request ()) =
     Inr \<lparr>arg_params = Original [(''id'', ''42'')],
          arg_query = Original [(''tag'', ''a''), (''tag'', ''b'')],
          arg_body = Undefined,
          arg_headers = Original [(''content-type'', ''application/json; charset=utf-8'')],
          arg_request = req_object todo_request, arg_context = ()\<rparr> \<and>
   schema_body no_schemas = None \<and>
   ReadJson \<notin> set (snd (handler_arguments no_schemas todo_request ())) \<and>
   get_property (req_object todo_request) ''json'' = Inr (Value (PFunction ''json''))"
proof -
  have b: "schema_body body_accepting \<noteq> None"
    by (simp add: body_accepting_def)
  have n: "schema_body no_schemas = None"
    by (simp add: no_schemas_def)
  have j: "get_property (req_object todo_request) ''json'' = Inr (Value (PFunction ''json''))"
    by (simp add: get_property_def todo_request_def framework_request_def
        HttpRequest_prototype_def)
  show ?thesis
    using b n j handler_request_guard [where schemasB = body_accepting
        and requestB = todo_request and ctxB = "()"
        and argsB = "\<lparr>arg_params = Original [(''id'', ''42'')],
          arg_query = Original [(''tag'', ''a''), (''tag'', ''b'')],
          arg_body = Validated JNull,
          arg_headers = Original [(''content-type'', ''application/json; charset=utf-8'')],
          arg_request = todo_safe_request, arg_context = ()\<rparr>"
        and schemas = no_schemas and request = todo_request and ctx = "()"
        and args = "\<lparr>arg_params = Original [(''id'', ''42'')],
          arg_query = Original [(''tag'', ''a''), (''tag'', ''b'')],
          arg_body = Undefined,
          arg_headers = Original [(''content-type'', ''application/json; charset=utf-8'')],
          arg_request = req_object todo_request, arg_context = ()\<rparr>"
        and s = no_schemas and h = failing_handler and r = todo_request and c = "()"]
    by (simp add: todo_guarded_arguments todo_arguments dangerousMethods_def)
qed

section \<open>C8: properties that the guarded view does not have\<close>

text \<open>
  C8 at a request as the host framework builds it, with the body parsed.
  \<^verbatim>\<open>Object.assign\<close> copies the own enumerable properties \<^verbatim>\<open>query\<close> and \<^verbatim>\<open>params\<close>;
  \<^verbatim>\<open>url\<close> is a getter of the prototype of the request, which is not the prototype of
  the view, so the view reads \<^verbatim>\<open>undefined\<close> where the request reads the URL.
\<close>

theorem createSafeRequest_drops_inherited:
  "createSafeRequest (req_object todo_request) True = Inr todo_safe_request \<and>
   get_property (req_object todo_request) ''url'' =
     Inr (Value (PString ''http://localhost:7071/api/todos/42'')) \<and>
   get_property todo_safe_request ''url'' = Inr Undefined_value \<and>
   get_property (req_object todo_request) ''params'' = Inr (Value (PParams [(''id'', ''42'')])) \<and>
   get_property todo_safe_request ''params'' = Inr (Value (PParams [(''id'', ''42'')]))"
proof -
  have "get_property (req_object todo_request) ''url'' =
      Inr (Value (PString ''http://localhost:7071/api/todos/42''))"
    and "get_property (req_object todo_request) ''params'' =
      Inr (Value (PParams [(''id'', ''42'')]))"
    by (simp_all add: get_property_def todo_request_def framework_request_def
        HttpRequest_prototype_def)
  moreover have "get_property todo_safe_request ''url'' = Inr Undefined_value"
    and "get_property todo_safe_request ''params'' = Inr (Value (PParams [(''id'', ''42'')]))"
    by (simp_all add: get_property_def todo_safe_request_def SAFE_REQUEST_PROTOTYPE_def
        dangerousMethods_def object_prototype_names_def)
  ultimately show ?thesis
    by (simp add: todo_createSafeRequest)
qed

text \<open>
  What the view does keep: an own enumerable property of the request reads the same on
  the view (the names of the own properties of an object are distinct).
\<close>

lemma createSafeRequest_own_enumerable:
  assumes "createSafeRequest request True = Inr view"
    and "distinct (map fst (own request))"
    and "map_of (own request) key = Some (Descriptor True sl)"
  shows "get_property view key = get_property request key"
proof -
  have "assign_properties (object_create SAFE_REQUEST_PROTOTYPE) (own request) = Inr view"
    using assms(1) by (simp add: createSafeRequest_def object_assign_def)
  then obtain en v where v: "(case sl of Data v \<Rightarrow> Inr v | Getter g \<Rightarrow> g) = Inr v"
    and "map_of (own view) key = Some (Descriptor en (Data v))"
    using assign_properties_own [OF _ assms(2)] assms(3) by blast
  then have "get_property view key = Inr (Value v)"
    by (simp add: get_property_def find_property_own)
  moreover have "get_property request key = Inr (Value v)"
    using v by (simp add: get_property_def find_property_own [OF assms(3)] split: slot.splits)
  ultimately show ?thesis by simp
qed

section \<open>C9: query keys that name a member of Object.prototype\<close>

text \<open>
  C9 at the query string \<^verbatim>\<open>?toString=a\<close>. The key appears once, but the read
  \<^verbatim>\<open>result[key]\<close> finds the function \<^verbatim>\<open>toString\<close> that the empty object inherits, so
  the adapter stores the array of that function and the value, not the string.
\<close>

theorem convertQueryToObject_inherited_key:
  "convertQueryToObject [(''toString'', ''a'')] =
     QueryObject [(''toString'', QArray [QInherited ''toString'', QString ''a''])]"
  by (simp add: convertQueryToObject_def read_result_def object_prototype_names_def)

lemma spec_query_value_snoc:
  "spec_query_value (vs @ [v]) =
     (case spec_query_value vs of
        None \<Rightarrow> Some (QString v)
      | Some (QArray existing) \<Rightarrow> Some (QArray (existing @ [QString v]))
      | Some existing \<Rightarrow> Some (QArray [existing, QString v]))"
  by (induction vs rule: spec_query_value.induct) simp_all

lemma getAll_snoc:
  "getAll (query @ [(k, v)]) key = (if k = key then getAll query key @ [v] else getAll query key)"
  by (simp add: getAll_def)

lemma query_forEach_ordinary_keys:
  assumes "''__proto__'' \<notin> fst ` set rest"
    and "\<forall>key. key \<notin> set object_prototype_names \<longrightarrow>
           map_of result key = spec_query_value (getAll visited key)"
  shows "\<exists>result'. query_forEach rest result = QueryObject result' \<and>
           (\<forall>key. key \<notin> set object_prototype_names \<longrightarrow>
              map_of result' key = spec_query_value (getAll (visited @ rest) key))"
  using assms
proof (induction rest arbitrary: result visited)
  case Nil
  then show ?case by simp
next
  case (Cons entry rest)
  obtain k v where entry: "entry = (k, v)" by (cases entry)
  have k: "k \<noteq> ''__proto__''" and rest: "''__proto__'' \<notin> fst ` set rest"
    using Cons.prems(1) by (auto simp: entry)
  define result1 where "result1 =
    (case read_result result k of
       None \<Rightarrow> AList.update k (QString v) result
     | Some (QArray existing) \<Rightarrow> AList.update k (QArray (existing @ [QString v])) result
     | Some existing \<Rightarrow> AList.update k (QArray [existing, QString v]) result)"
  have step: "query_forEach (entry # rest) result = query_forEach rest result1"
    using k by (simp add: entry result1_def split: option.splits qvalue.splits)
  have inv: "\<forall>key. key \<notin> set object_prototype_names \<longrightarrow>
      map_of result1 key = spec_query_value (getAll (visited @ [entry]) key)"
  proof (intro allI impI)
    fix key
    assume key: "key \<notin> set object_prototype_names"
    then have old: "map_of result key = spec_query_value (getAll visited key)"
      using Cons.prems(2) by simp
    show "map_of result1 key = spec_query_value (getAll (visited @ [entry]) key)"
    proof (cases "k = key")
      case False
      then have "map_of result1 key = map_of result key"
        by (simp add: result1_def update_conv' split: option.splits qvalue.splits)
      then show ?thesis using False old by (simp add: entry getAll_snoc)
    next
      case True
      then have "read_result result k = spec_query_value (getAll visited key)"
        using key old by (simp add: read_result_def split: option.splits)
      then show ?thesis
        using True
        by (simp add: entry getAll_snoc spec_query_value_snoc result1_def update_conv'
            split: option.splits qvalue.splits)
    qed
  qed
  show ?case
    using Cons.IH [OF rest inv] by (simp add: step)
qed

text \<open>
  Where the adapter does what the specification says: for a query without the key
  \<^verbatim>\<open>__proto__\<close>, every key that is not the name of a member of \<^verbatim>\<open>Object.prototype\<close>
  gets the value of the specification.
\<close>

lemma convertQueryToObject_ordinary_keys:
  assumes "''__proto__'' \<notin> fst ` set query"
  shows "\<exists>result. convertQueryToObject query = QueryObject result \<and>
           (\<forall>key. key \<notin> set object_prototype_names \<longrightarrow>
              map_of result key = spec_query_value (getAll query key))"
  using query_forEach_ordinary_keys [of query "[]" "[]"] assms
  by (simp add: convertQueryToObject_def getAll_def)

text \<open>The two examples of the specification, \<^verbatim>\<open>?tag=a&tag=b\<close> and \<^verbatim>\<open>?tag=a\<close>.\<close>

lemma convertQueryToObject_examples:
  "convertQueryToObject [(''tag'', ''a''), (''tag'', ''b'')] =
     QueryObject [(''tag'', QArray [QString ''a'', QString ''b''])]"
  "convertQueryToObject [(''tag'', ''a'')] = QueryObject [(''tag'', QString ''a'')]"
  by (simp_all add: convertQueryToObject_def read_result_def object_prototype_names_def)

section \<open>C10: the gate is a substring test\<close>



end
